theory Spec2Isabelle
  imports Main "HOL-Library.AList"
begin

section \<open>Data of the signaling relay\<close>

text \<open>
  A model of \<^verbatim>\<open>api/websocket.go\<close>: the handler of one connection, from the upgrade
  to the deferred cleanup, as functions on an explicit state. The state holds the room
  directory and the transports, both shared with the handlers of the other
  connections, and the list of what this handler has done.
\<close>

text \<open>
  The claim bound to a connection (jwt.PionClaim): the three fields that
  \<^verbatim>\<open>websocket.go\<close> reads.
\<close>

record PionClaim =
  ApiKeyID :: string
  Room :: string
  SessionKey :: string

text \<open>
  Modelled from the spec: the declaration of \<^verbatim>\<open>pionSession\<close> is not in
  \<^verbatim>\<open>websocket.go\<close>. A session is \<open>{claim, transport handle, write lock}\<close>; the
  transport handle is the number of the upgraded connection. The lock only serialises
  concurrent writers and has no counterpart in a sequential model.
\<close>

record pionSession =
  websocket :: nat
  claims :: PionClaim

text \<open>
  Modelled from the spec: the message structs are declared outside
  \<^verbatim>\<open>websocket.go\<close>. \<open>sdp\<close> and \<open>candidate\<close> carry \<open>{src, dst, payload}\<close> with an
  opaque payload under the envelope's \<open>method\<close>; \<open>members\<close> carries a list of
  participant keys, \<open>exit\<close> the departing participant key, \<open>ping\<close> nothing.
\<close>

record relayArgs =
  Src :: string
  Dst :: string
  Payload :: string

record relayMessage =
  Method :: string
  Args :: relayArgs

datatype message =
    messageMembers "string list"
  | messageSDP relayMessage
  | messageCandidate relayMessage
  | messagePing
  | messageExit string

text \<open>
  The bytes of an inbound frame are opaque here. \<^verbatim>\<open>websocket.go\<close> only ever passes
  them to \<^verbatim>\<open>json.Unmarshal\<close>, with one of three targets, so a frame is given by the
  three results: \<open>None\<close> is a decoding error, \<open>Some\<close> the decoded struct.
\<close>

record raw =
  unmarshal_messageBase :: "string option"
  unmarshal_messageSDP :: "relayMessage option"
  unmarshal_messageCandidate :: "relayMessage option"

text \<open>
  Go errors as values. \<open>New\<close> is \<^verbatim>\<open>errors.New\<close> with its text, \<open>Wrapped\<close> is what
  \<^verbatim>\<open>errors.Wrap\<close> builds around a non-nil error, \<open>UnknownClientMethod\<close> is
  \<^verbatim>\<open>fmt.Errorf("unknown client method %s", m)\<close>, \<open>UnmarshalError\<close> an error of
  \<^verbatim>\<open>json.Unmarshal\<close>, \<open>WriteError\<close> a failed write on a transport and
  \<open>BadAuthTokenCount\<close> the printed complaint about the number of tokens.
\<close>

datatype error =
    UnmarshalError
  | WriteError
  | GetClaimsError
  | BadAuthTokenCount nat
  | New string
  | UnknownClientMethod string
  | Wrapped error string

fun Wrap :: "error option \<Rightarrow> string \<Rightarrow> error option" where
  "Wrap None msg = None"
| "Wrap (Some e) msg = Some (Wrapped e msg)"

fun Cause :: "error \<Rightarrow> error" where
  "Cause (Wrapped e msg) = Cause e"
| "Cause e = e"


definition PeerNotFound :: "error \<Rightarrow> bool" where
  "PeerNotFound e = (Cause e = New ''no entry found in membersMap'')"

section \<open>The room directory\<close>

text \<open>
  Modelled from the spec: package \<^verbatim>\<open>room\<close> is not among the sources. The directory
  maps (tenant, room) to a map from participant key to session, with \<open>put\<close>
  (registers or overwrites), \<open>get\<close> (point lookup), \<open>remove\<close> (result indicating
  presence) and \<open>forEach\<close> (enumeration, order unspecified). Association lists give
  the enumeration an order; no theorem below depends on which.
\<close>

type_synonym membersMap = "(string \<times> pionSession) list"

type_synonym directory = "((string \<times> string) \<times> membersMap) list"

definition GetRoom :: "directory \<Rightarrow> string \<Rightarrow> string \<Rightarrow> membersMap option" where
  "GetRoom d apiKey room = map_of d (apiKey, room)"

definition GetSession :: "directory \<Rightarrow> string \<Rightarrow> string \<Rightarrow> string \<Rightarrow> pionSession option" where
  "GetSession d apiKey room sessionKey =
     (case GetRoom d apiKey room of None \<Rightarrow> None | Some m \<Rightarrow> map_of m sessionKey)"

definition StoreSession :: "string \<Rightarrow> string \<Rightarrow> string \<Rightarrow> pionSession \<Rightarrow> directory \<Rightarrow> directory" where
  "StoreSession apiKey room sessionKey s d =
     AList.update (apiKey, room)
       (AList.update sessionKey s (case GetRoom d apiKey room of None \<Rightarrow> [] | Some m \<Rightarrow> m)) d"

definition DestroySession :: "string \<Rightarrow> string \<Rightarrow> string \<Rightarrow> directory \<Rightarrow> error option \<times> directory" where
  "DestroySession apiKey room sessionKey d =
     (case GetRoom d apiKey room of
        None \<Rightarrow> (Some (New ''session not found''), d)
      | Some m \<Rightarrow>
          (case map_of m sessionKey of
             None \<Rightarrow> (Some (New ''session not found''), d)
           | Some s \<Rightarrow> (None, AList.update (apiKey, room) (AList.delete sessionKey m) d)))"

section \<open>Shared state and effects\<close>

text \<open>
  What a handler does to the outside, in the order it does it: directory calls,
  frames written to a transport (delivered or failed) and transports closed.
\<close>

datatype effect =
    Stored string string string nat
  | Destroyed string string string
  | Sent nat message
  | SendFailed nat message
  | Closed nat

text \<open>
  The state a handler runs in: the directory, the transports on which a write fails,
  and the effects of this handler so far.
\<close>

record world =
  directory :: directory
  dead :: "nat set"
  effects :: "effect list"

definition emit :: "effect \<Rightarrow> world \<Rightarrow> world" where
  "emit e w = w\<lparr>effects := effects w @ [e]\<rparr>"

text \<open>
  Modelled from the spec: \<^verbatim>\<open>pionSession.WriteJSON\<close> is declared outside
  \<^verbatim>\<open>websocket.go\<close>. It is the single "encode and send" operation of a session; it
  fails exactly when the transport does.
\<close>

definition WriteJSON :: "pionSession \<Rightarrow> message \<Rightarrow> world \<Rightarrow> error option \<times> world" where
  "WriteJSON s m w =
     (if websocket s \<in> dead w then (Some WriteError, emit (SendFailed (websocket s) m) w)
      else (None, emit (Sent (websocket s) m) w))"

text \<open>
  \<^verbatim>\<open>websocket.Close\<close>: later writes on the transport fail. An upgraded transport
  belongs to the handler, so nothing else closes it.
\<close>

definition Close :: "nat \<Rightarrow> world \<Rightarrow> world" where
  "Close c w = emit (Closed c) (w\<lparr>dead := insert c (dead w)\<rparr>)"

section \<open>The handlers of websocket.go\<close>

text \<open>The callback of \<^verbatim>\<open>Range\<close> in \<^verbatim>\<open>sendMembers\<close>, run over the entries in order.\<close>

fun collectMembers :: "string \<Rightarrow> membersMap \<Rightarrow> string list \<Rightarrow> string list" where
  "collectMembers own [] acc = acc"
| "collectMembers own ((key, v) # rest) acc =
     collectMembers own rest (if key \<noteq> own then acc @ [key] else acc)"

definition sendMembers :: "pionSession \<Rightarrow> world \<Rightarrow> error option \<times> world" where
  "sendMembers session w =
     (let members =
        (case GetRoom (directory w) (ApiKeyID (claims session)) (Room (claims session)) of
           None \<Rightarrow> []
         | Some m \<Rightarrow> collectMembers (SessionKey (claims session)) m [])
      in WriteJSON session (messageMembers members) w)"

definition setSrc :: "string \<Rightarrow> relayMessage \<Rightarrow> relayMessage" where
  "setSrc k m = m\<lparr>Args := (Args m)\<lparr>Src := k\<rparr>\<rparr>"

definition sendSdp :: "pionSession \<Rightarrow> raw \<Rightarrow> world \<Rightarrow> error option \<times> world" where
  "sendSdp session r w =
     (case unmarshal_messageSDP r of
        None \<Rightarrow> (Some UnmarshalError, w)
      | Some m0 \<Rightarrow>
          (let m = setSrc (SessionKey (claims session)) m0 in
           case GetSession (directory w) (ApiKeyID (claims session)) (Room (claims session))
                  (Dst (Args m)) of
             None \<Rightarrow> (Some (New ''no entry found in membersMap''), w)
           | Some dstConn \<Rightarrow> WriteJSON dstConn (messageSDP m) w))"

definition sendCandidate :: "pionSession \<Rightarrow> raw \<Rightarrow> world \<Rightarrow> error option \<times> world" where
  "sendCandidate session r w =
     (case unmarshal_messageCandidate r of
        None \<Rightarrow> (Some UnmarshalError, w)
      | Some m0 \<Rightarrow>
          (let m = setSrc (SessionKey (claims session)) m0 in
           case GetSession (directory w) (ApiKeyID (claims session)) (Room (claims session))
                  (Dst (Args m)) of
             None \<Rightarrow> (Some (New ''no entry found in membersMap''), w)
           | Some dstConn \<Rightarrow> WriteJSON dstConn (messageCandidate m) w))"

definition sendPing :: "pionSession \<Rightarrow> world \<Rightarrow> error option \<times> world" where
  "sendPing session w = WriteJSON session messagePing w"

text \<open>
  The callback of \<^verbatim>\<open>Range\<close> in \<^verbatim>\<open>announceExit\<close>: a failed write is printed and the
  callback returns true, so the enumeration goes on.
\<close>

fun exitRange :: "string \<Rightarrow> membersMap \<Rightarrow> world \<Rightarrow> world" where
  "exitRange sessionKey [] w = w"
| "exitRange sessionKey ((key, v) # rest) w =
     exitRange sessionKey rest (snd (WriteJSON v (messageExit sessionKey) w))"

definition announceExit :: "string \<Rightarrow> string \<Rightarrow> string \<Rightarrow> world \<Rightarrow> world" where
  "announceExit apiKey room sessionKey w =
     (case GetRoom (directory w) apiKey room of
        None \<Rightarrow> w
      | Some m \<Rightarrow> exitRange sessionKey m w)"

text \<open>\<^verbatim>\<open>errors.Wrap\<close> around what a handler returned: no error stays no error.\<close>

definition onError :: "error option \<times> world \<Rightarrow> string \<Rightarrow> error option \<times> world" where
  "onError res msg = (Wrap (fst res) msg, snd res)"

definition handleClientMessage :: "pionSession \<Rightarrow> raw \<Rightarrow> world \<Rightarrow> error option \<times> world" where
  "handleClientMessage session r w =
     (case unmarshal_messageBase r of
        None \<Rightarrow> (Some UnmarshalError, w)
      | Some name \<Rightarrow>
          if name = ''members'' then onError (sendMembers session w) ''sendMembers failed''
          else if name = ''sdp'' then onError (sendSdp session r w) ''sendSdp failed''
          else if name = ''candidate'' then
            onError (sendCandidate session r w) ''sendCandidate failed''
          else if name = ''pong'' then (None, w)
          else (Some (UnknownClientMethod name), w))"

text \<open>
  The event loop selects among the keepalive ticker, the frames forwarded by the
  reading goroutine and the stop channel that goroutine closes when a read fails. The
  order in which the cases fire is the environment's: it is given as a list.
  Between two iterations other goroutines run; \<open>Elsewhere\<close> is one of their steps on
  the shared state: a transport breaks, another handler stores or destroys a
  session.
\<close>

datatype action =
    Breaks nat
  | Stores pionSession
  | Destroys string string string

fun act :: "action \<Rightarrow> world \<Rightarrow> world" where
  "act (Breaks c) w = w\<lparr>dead := insert c (dead w)\<rparr>"
| "act (Stores s) w =
     w\<lparr>directory :=
         StoreSession (ApiKeyID (claims s)) (Room (claims s)) (SessionKey (claims s)) s
           (directory w)\<rparr>"
| "act (Destroys apiKey room sessionKey) w =
     w\<lparr>directory := snd (DestroySession apiKey room sessionKey (directory w))\<rparr>"

datatype event =
    Tick
  | Inbound raw
  | Stop
  | Elsewhere action

text \<open>Why the loop returned; the loop that has not returned is \<open>None\<close>.\<close>

datatype return =
    PingFailed error
  | HandlerFailed error
  | Stopped

fun handleWS :: "pionSession \<Rightarrow> event list \<Rightarrow> world \<Rightarrow> return option \<times> world" where
  "handleWS session [] w = (None, w)"
| "handleWS session (Tick # evs) w =
     (case sendPing session w of
        (Some err, w') \<Rightarrow> (Some (PingFailed err), w')
      | (None, w') \<Rightarrow> handleWS session evs w')"
| "handleWS session (Inbound r # evs) w =
     (case handleClientMessage session r w of
        (Some err, w') \<Rightarrow> (Some (HandlerFailed err), w')
      | (None, w') \<Rightarrow> handleWS session evs w')"
| "handleWS session (Stop # evs) w = (Some Stopped, w)"
| "handleWS session (Elsewhere a # evs) w = handleWS session evs (act a w)"

definition assertClaims :: "PionClaim \<Rightarrow> error option" where
  "assertClaims c =
     (if ApiKeyID c = [] then Some (New ''Claims were missing a ApiKeyId'')
      else if SessionKey c = [] then Some (New ''Claims were missing a sessionKey'')
      else if Room c = [] then Some (New ''Claims were missing a room'')
      else None)"

text \<open>The deferred function of \<^verbatim>\<open>HandleRootWSUpgrade\<close>.\<close>

definition deferred :: "pionSession \<Rightarrow> world \<Rightarrow> world" where
  "deferred session w =
     (let c = claims session;
          w1 = emit (Destroyed (ApiKeyID c) (Room c) (SessionKey c))
                 (w\<lparr>directory :=
                      snd (DestroySession (ApiKeyID c) (Room c) (SessionKey c) (directory w))\<rparr>);
          w2 = announceExit (ApiKeyID c) (Room c) (SessionKey c) w1
      in Close (websocket session) w2)"

text \<open>
  A request is what the handler reads of it: the result of \<^verbatim>\<open>upgrader.Upgrade\<close>
  (the new transport, or none when the upgrade fails) and the values of the
  \<^verbatim>\<open>authToken\<close> query parameter.
\<close>

record request =
  upgrade :: "nat option"
  authTokens :: "string list"

text \<open>
  How a run of the handler stands: it returned before a session existed, it is
  still in the event loop, or it returned from there (through the deferred function).
\<close>

datatype outcome =
    UpgradeFailed
  | Rejected error
  | Serving
  | Finished "error + return"

text \<open>
  \<^verbatim>\<open>jwt.GetClaims\<close> is the external token validation: a parameter.
\<close>

definition HandleRootWSUpgrade ::
  "(string \<Rightarrow> PionClaim option) \<Rightarrow> request \<Rightarrow> event list \<Rightarrow> world \<Rightarrow> outcome \<times> world" where
  "HandleRootWSUpgrade GetClaims r evs w =
     (case upgrade r of
        None \<Rightarrow> (UpgradeFailed, w)
      | Some c \<Rightarrow>
          if length (authTokens r) \<noteq> 1 then
            (Rejected (BadAuthTokenCount (length (authTokens r))), w)
          else
            (case GetClaims (authTokens r ! 0) of
               None \<Rightarrow> (Rejected GetClaimsError, w)
             | Some cl \<Rightarrow>
                 (case assertClaims cl of
                    Some err \<Rightarrow> (Rejected err, w)
                  | None \<Rightarrow>
                      (let session = \<lparr>websocket = c, claims = cl\<rparr>;
                           w1 = emit (Stored (ApiKeyID cl) (Room cl) (SessionKey cl) c)
                                  (w\<lparr>directory :=
                                       StoreSession (ApiKeyID cl) (Room cl) (SessionKey cl)
                                         session (directory w)\<rparr>)
                       in case sendMembers session w1 of
                            (Some err, w2) \<Rightarrow> (Finished (Inl err), deferred session w2)
                          | (None, w2) \<Rightarrow>
                              (case handleWS session evs w2 of
                                 (None, w3) \<Rightarrow> (Serving, w3)
                               | (Some ret, w3) \<Rightarrow>
                                   (Finished (Inr ret), deferred session w3))))))"

section \<open>Vocabulary of the properties\<close>

text \<open>
  The effect of one write of \<open>m\<close> to session \<open>s\<close> when the transports in \<open>D\<close> are
  broken, and the members of a room (none when the room does not exist).
\<close>

definition attempt :: "nat set \<Rightarrow> message \<Rightarrow> pionSession \<Rightarrow> effect" where
  "attempt D m s = (if websocket s \<in> D then SendFailed (websocket s) m else Sent (websocket s) m)"

definition members_of :: "directory \<Rightarrow> string \<Rightarrow> string \<Rightarrow> membersMap" where
  "members_of d a r = (case GetRoom d a r of None \<Rightarrow> [] | Some m \<Rightarrow> m)"

text \<open>
  What a session with participant key \<open>k\<close> may write while it is being served: a
  members list without \<open>k\<close>, a relayed message whose \<open>src\<close> is \<open>k\<close>, a ping, and never
  an exit message; and no effect other than a write.
\<close>

fun written :: "effect \<Rightarrow> message option" where
  "written (Sent c m) = Some m"
| "written (SendFailed c m) = Some m"
| "written e = None"

fun serving :: "string \<Rightarrow> message \<Rightarrow> bool" where
  "serving k (messageMembers ks) = (k \<notin> set ks)"
| "serving k (messageSDP m) = (Src (Args m) = k)"
| "serving k (messageCandidate m) = (Src (Args m) = k)"
| "serving k messagePing = True"
| "serving k (messageExit x) = False"

definition servingEffect :: "string \<Rightarrow> effect \<Rightarrow> bool" where
  "servingEffect k e = (case written e of None \<Rightarrow> False | Some m \<Rightarrow> serving k m)"



text \<open>
  In a directory built by \<open>StoreSession\<close> and \<open>DestroySession\<close> from the empty one, no
  room lists a participant key twice.
\<close>

definition uniqueKeys :: "directory \<Rightarrow> bool" where
  "uniqueKeys d = list_all (\<lambda>p. distinct (map fst (snd p))) d"

section \<open>Concrete scenarios\<close>

text \<open>
  One tenant \<open>t\<close>, one room \<open>r\<close> and three participants, for evaluating the
  handlers on concrete inputs.
\<close>

definition alice :: pionSession where
  "alice = \<lparr>websocket = 10, claims = \<lparr>ApiKeyID = ''t'', Room = ''r'', SessionKey = ''A''\<rparr>\<rparr>"

definition bob :: pionSession where
  "bob = \<lparr>websocket = 20, claims = \<lparr>ApiKeyID = ''t'', Room = ''r'', SessionKey = ''B''\<rparr>\<rparr>"

definition carol :: pionSession where
  "carol = \<lparr>websocket = 30, claims = \<lparr>ApiKeyID = ''t'', Room = ''r'', SessionKey = ''C''\<rparr>\<rparr>"

definition room_abc :: world where
  "room_abc = \<lparr>directory = [((''t'', ''r''), [(''A'', alice), (''B'', bob), (''C'', carol)])],
     dead = {}, effects = []\<rparr>"

definition relay_frame :: "string \<Rightarrow> string \<Rightarrow> string \<Rightarrow> raw" where
  "relay_frame name src dst =
     \<lparr>unmarshal_messageBase = Some name,
      unmarshal_messageSDP = Some \<lparr>Method = name, Args = \<lparr>Src = src, Dst = dst, Payload = ''v=0''\<rparr>\<rparr>,
      unmarshal_messageCandidate = Some \<lparr>Method = name, Args = \<lparr>Src = src, Dst = dst, Payload = ''v=0''\<rparr>\<rparr>\<rparr>"

definition room_bc :: world where
  "room_bc = \<lparr>directory = [((''t'', ''r''), [(''B'', bob), (''C'', carol)])], dead = {}, effects = []\<rparr>"

definition alice_request :: request where
  "alice_request = \<lparr>upgrade = Some 10, authTokens = [''token-of-alice'']\<rparr>"

definition validate :: "string \<Rightarrow> PionClaim option" where
  "validate token = (if token = ''token-of-alice'' then Some (claims alice) else None)"

definition members_frame :: raw where
  "members_frame = \<lparr>unmarshal_messageBase = Some ''members'', unmarshal_messageSDP = None,
     unmarshal_messageCandidate = None\<rparr>"



definition dave :: pionSession where
  "dave = \<lparr>websocket = 40, claims = \<lparr>ApiKeyID = ''t'', Room = ''r2'', SessionKey = ''D''\<rparr>\<rparr>"

definition two_rooms :: world where
  "two_rooms =
     \<lparr>directory = [((''t'', ''r''), [(''A'', alice), (''B'', bob), (''C'', carol)]),
                   ((''t'', ''r2''), [(''D'', dave)])],
      dead = {}, effects = []\<rparr>"


definition claim_without :: "nat \<Rightarrow> string \<Rightarrow> PionClaim option" where
  "claim_without field token =
     Some \<lparr>ApiKeyID = (if field = 0 then [] else ''t''),
           Room = (if field = 1 then [] else ''r''),
           SessionKey = (if field = 2 then [] else ''A'')\<rparr>"

definition dave_request :: request where
  "dave_request = \<lparr>upgrade = Some 40, authTokens = [''token-of-dave'']\<rparr>"

definition validate_dave :: "string \<Rightarrow> PionClaim option" where
  "validate_dave token = (if token = ''token-of-dave'' then Some (claims dave) else None)"



section \<open>Effects of the single operations\<close>

lemma WriteJSON_snd:
  "snd (WriteJSON s m w) = emit (attempt (dead w) m s) w"
  by (simp add: WriteJSON_def attempt_def)

lemma emit_simps [simp]:
  "effects (emit e w) = effects w @ [e]"
  "directory (emit e w) = directory w"
  "dead (emit e w) = dead w"
  by (simp_all add: emit_def)

lemma written_attempt [simp]: "written (attempt D m s) = Some m"
  by (simp add: attempt_def)

lemma setSrc_idem [simp]: "setSrc k (setSrc x m) = setSrc k m"
  by (simp add: setSrc_def)

lemma Dst_setSrc [simp]: "Dst (Args (setSrc k m)) = Dst (Args m)"
  by (simp add: setSrc_def)

lemma Src_setSrc [simp]: "Src (Args (setSrc k m)) = k"
  by (simp add: setSrc_def)

lemma collectMembers_filter:
  "collectMembers own m acc = acc @ filter (\<lambda>key. key \<noteq> own) (map fst m)"
  by (induction own m acc rule: collectMembers.induct) auto

lemma sendMembers_snd:
  "snd (sendMembers s w) =
     emit (attempt (dead w)
       (messageMembers (filter (\<lambda>key. key \<noteq> SessionKey (claims s))
          (map fst (members_of (directory w) (ApiKeyID (claims s)) (Room (claims s)))))) s) w"
  by (simp add: sendMembers_def WriteJSON_snd members_of_def collectMembers_filter
      split: option.split)

lemma sendPing_snd: "snd (sendPing s w) = emit (attempt (dead w) messagePing s) w"
  by (simp add: sendPing_def WriteJSON_snd)

lemma exitRange_effects:
  "effects (exitRange k m w) = effects w @ map (\<lambda>p. attempt (dead w) (messageExit k) (snd p)) m"
  by (induction k m w rule: exitRange.induct) (simp_all add: WriteJSON_snd)

lemma exitRange_directory [simp]: "directory (exitRange k m w) = directory w"
  by (induction k m w rule: exitRange.induct) (simp_all add: WriteJSON_snd)

lemma exitRange_dead [simp]: "dead (exitRange k m w) = dead w"
  by (induction k m w rule: exitRange.induct) (simp_all add: WriteJSON_snd)

lemma announceExit_effects:
  "effects (announceExit a r k w) =
     effects w @ map (\<lambda>p. attempt (dead w) (messageExit k) (snd p)) (members_of (directory w) a r)"
  by (simp add: announceExit_def members_of_def exitRange_effects split: option.split)

lemma announceExit_directory [simp]: "directory (announceExit a r k w) = directory w"
  by (simp add: announceExit_def split: option.split)

lemma announceExit_dead [simp]: "dead (announceExit a r k w) = dead w"
  by (simp add: announceExit_def split: option.split)

section \<open>The directory\<close>

lemma GetRoom_update_same: "GetRoom (AList.update (a, r) m d) a r = Some m"
  by (simp add: GetRoom_def update_conv')

lemma GetSession_members_of: "GetSession d a r k = map_of (members_of d a r) k"
  by (simp add: GetSession_def members_of_def split: option.split)


lemma members_of_DestroySession:
  "members_of (snd (DestroySession a r k d)) a r = AList.delete k (members_of d a r)"
proof (cases "GetRoom d a r")
  case None
  then show ?thesis by (simp add: DestroySession_def members_of_def)
next
  case (Some m)
  show ?thesis
  proof (cases "map_of m k")
    case None
    then have "k \<notin> fst ` set m" by (simp add: map_of_eq_None_iff)
    with Some None show ?thesis by (simp add: DestroySession_def members_of_def)
  next
    case (Some s)
    with \<open>GetRoom d a r = Some m\<close> show ?thesis
      by (simp add: DestroySession_def members_of_def GetRoom_update_same)
  qed
qed

lemma GetSession_DestroySession_same:
  "GetSession (snd (DestroySession a r k d)) a r k = None"
  by (simp add: GetSession_members_of members_of_DestroySession delete_conv')

lemma set_update_subset: "set (AList.update k v al) \<subseteq> insert (k, v) (set al)"
  by (induction al) auto

lemma uniqueKeys_update:
  "uniqueKeys d \<Longrightarrow> distinct (map fst m) \<Longrightarrow> uniqueKeys (AList.update k m d)"
  using set_update_subset [of k m d] by (auto simp: uniqueKeys_def list_all_iff)

lemma members_of_distinct: "uniqueKeys d \<Longrightarrow> distinct (map fst (members_of d a r))"
  by (auto simp: uniqueKeys_def list_all_iff members_of_def GetRoom_def
      split: option.split dest!: map_of_SomeD)

lemma uniqueKeys_StoreSession: "uniqueKeys d \<Longrightarrow> uniqueKeys (StoreSession a r k s d)"
  using members_of_distinct [of d a r]
  by (simp add: StoreSession_def members_of_def [symmetric] uniqueKeys_update distinct_update)

lemma uniqueKeys_DestroySession:
  "uniqueKeys d \<Longrightarrow> uniqueKeys (snd (DestroySession a r k d))"
  using members_of_distinct [of d a r]
  by (auto simp: DestroySession_def members_of_def uniqueKeys_update distinct_delete
      split: option.split)

section \<open>What a session writes while it is served\<close>

lemma servingEffect_Sent_SDP:
  "servingEffect k (Sent c (messageSDP m)) = (Src (Args m) = k)"
  "servingEffect k (Sent c (messageCandidate m)) = (Src (Args m) = k)"
  by (simp_all add: servingEffect_def)

lemma servingEffect_plain:
  "servingEffect k e \<Longrightarrow> \<exists>c m. (e = Sent c m \<or> e = SendFailed c m) \<and> (\<forall>x. m \<noteq> messageExit x)"
  by (cases e) (auto simp: servingEffect_def)

lemma sendSdp_step:
  "\<exists>new. effects (snd (sendSdp s r w)) = effects w @ new
     \<and> list_all (servingEffect (SessionKey (claims s))) new
     \<and> directory (snd (sendSdp s r w)) = directory w \<and> dead (snd (sendSdp s r w)) = dead w"
  by (auto simp: sendSdp_def Let_def WriteJSON_snd servingEffect_def setSrc_def
      split: option.split)

lemma sendCandidate_step:
  "\<exists>new. effects (snd (sendCandidate s r w)) = effects w @ new
     \<and> list_all (servingEffect (SessionKey (claims s))) new
     \<and> directory (snd (sendCandidate s r w)) = directory w \<and> dead (snd (sendCandidate s r w)) = dead w"
  by (auto simp: sendCandidate_def Let_def WriteJSON_snd servingEffect_def setSrc_def
      split: option.split)

lemma sendMembers_step:
  "\<exists>new. effects (snd (sendMembers s w)) = effects w @ new
     \<and> list_all (servingEffect (SessionKey (claims s))) new
     \<and> directory (snd (sendMembers s w)) = directory w \<and> dead (snd (sendMembers s w)) = dead w"
  by (simp add: sendMembers_snd servingEffect_def)

lemma handleClientMessage_step:
  "\<exists>new. effects (snd (handleClientMessage s r w)) = effects w @ new
     \<and> list_all (servingEffect (SessionKey (claims s))) new
     \<and> directory (snd (handleClientMessage s r w)) = directory w
     \<and> dead (snd (handleClientMessage s r w)) = dead w"
  using sendSdp_step [of s r w] sendCandidate_step [of s r w] sendMembers_step [of s w]
  by (auto simp: handleClientMessage_def onError_def split: option.split)

lemma sendPing_step:
  "\<exists>new. effects (snd (sendPing s w)) = effects w @ new
     \<and> list_all (servingEffect (SessionKey (claims s))) new"
  by (simp add: sendPing_snd servingEffect_def)

lemma act_effects [simp]: "effects (act a w) = effects w"
  by (cases a) simp_all

lemma handleWS_effects:
  "\<exists>new. effects (snd (handleWS s evs w)) = effects w @ new
     \<and> list_all (servingEffect (SessionKey (claims s))) new"
proof (induction s evs w rule: handleWS.induct)
  case (1 session w)
  then show ?case by simp
next
  case (2 session evs w)
  obtain e w' where sp: "sendPing session w = (e, w')" by (cases "sendPing session w")
  from sendPing_step [of session w] sp obtain n1 where
    n1: "effects w' = effects w @ n1" "list_all (servingEffect (SessionKey (claims session))) n1"
    by auto
  show ?case
  proof (cases e)
    case None
    from 2 [OF sp [symmetric] None] obtain n2 where
      "effects (snd (handleWS session evs w')) = effects w' @ n2"
      "list_all (servingEffect (SessionKey (claims session))) n2" by blast
    with n1 sp None show ?thesis by simp
  next
    case (Some a)
    with n1 sp show ?thesis by simp
  qed
next
  case (3 session r evs w)
  obtain e w' where sp: "handleClientMessage session r w = (e, w')"
    by (cases "handleClientMessage session r w")
  from handleClientMessage_step [of session r w] sp obtain n1 where
    n1: "effects w' = effects w @ n1" "list_all (servingEffect (SessionKey (claims session))) n1"
    by auto
  show ?case
  proof (cases e)
    case None
    from 3 [OF sp [symmetric] None] obtain n2 where
      "effects (snd (handleWS session evs w')) = effects w' @ n2"
      "list_all (servingEffect (SessionKey (claims session))) n2" by blast
    with n1 sp None show ?thesis by simp
  next
    case (Some a)
    with n1 sp show ?thesis by simp
  qed
next
  case (4 session evs w)
  then show ?case by simp
next
  case (5 session a evs w)
  then show ?case by simp
qed

lemma act_uniqueKeys: "uniqueKeys (directory w) \<Longrightarrow> uniqueKeys (directory (act a w))"
  by (cases a) (simp_all add: uniqueKeys_StoreSession uniqueKeys_DestroySession)

lemma handleWS_uniqueKeys:
  "uniqueKeys (directory w) \<Longrightarrow> uniqueKeys (directory (snd (handleWS s evs w)))"
proof (induction s evs w rule: handleWS.induct)
  case (2 session evs w)
  have "directory (snd (sendPing session w)) = directory w"
    by (simp add: sendPing_snd)
  with 2 show ?case
    by (cases "sendPing session w") (auto split: option.split)
next
  case (3 session r evs w)
  have "directory (snd (handleClientMessage session r w)) = directory w"
    using handleClientMessage_step [of session r w] by blast
  with 3 show ?case
    by (cases "handleClientMessage session r w") (auto split: option.split)
next
  case (5 session a evs w)
  then show ?case by (simp add: act_uniqueKeys)
qed simp_all

section \<open>Schedules\<close>

lemma handleWS_append:
  "handleWS s (pre @ post) w =
     (case handleWS s pre w of (None, w') \<Rightarrow> handleWS s post w' | (Some ret, w') \<Rightarrow> (Some ret, w'))"
  by (induction s pre w rule: handleWS.induct) (auto split: prod.split option.split)


lemma handleWS_ticks:
  "websocket s \<notin> dead w \<Longrightarrow>
   handleWS s (replicate n Tick) w =
     (None, w\<lparr>effects := effects w @ replicate n (Sent (websocket s) messagePing)\<rparr>)"
proof (induction n arbitrary: w)
  case 0
  then show ?case by simp
next
  case (Suc n)
  have "sendPing s w = (None, emit (Sent (websocket s) messagePing) w)"
    using Suc.prems by (simp add: sendPing_def WriteJSON_def)
  moreover have "websocket s \<notin> dead (emit (Sent (websocket s) messagePing) w)"
    using Suc.prems by simp
  ultimately show ?case
    using Suc.IH [of "emit (Sent (websocket s) messagePing) w"]
    by (simp add: emit_def replicate_app_Cons_same)
qed



lemma handler_continue:
  assumes "HandleRootWSUpgrade GetClaims req pre w0 = (Serving, w)"
    and "upgrade req = Some c" and "GetClaims (authTokens req ! 0) = Some cl"
  shows "HandleRootWSUpgrade GetClaims req (pre @ evs) w0 =
     (case handleWS \<lparr>websocket = c, claims = cl\<rparr> evs w of
        (None, w') \<Rightarrow> (Serving, w')
      | (Some ret, w') \<Rightarrow> (Finished (Inr ret), deferred \<lparr>websocket = c, claims = cl\<rparr> w'))"
proof -
  define session where "session = \<lparr>websocket = c, claims = cl\<rparr>"
  define w1 where "w1 = emit (Stored (ApiKeyID cl) (Room cl) (SessionKey cl) c)
     (w0\<lparr>directory := StoreSession (ApiKeyID cl) (Room cl) (SessionKey cl) session (directory w0)\<rparr>)"
  obtain e2 w2 where sm: "sendMembers session w1 = (e2, w2)" by (cases "sendMembers session w1")
  obtain ret w3 where hw: "handleWS session pre w2 = (ret, w3)" by (cases "handleWS session pre w2")
  from assms sm hw have ok: "length (authTokens req) = 1" "assertClaims cl = None" "e2 = None"
      "ret = None" "w3 = w"
    by (auto simp: HandleRootWSUpgrade_def Let_def session_def [symmetric] w1_def [symmetric]
        split: if_splits option.splits)
  have "handleWS session (pre @ evs) w2 = handleWS session evs w"
    using hw ok by (simp add: handleWS_append)
  with assms(2,3) sm ok have "HandleRootWSUpgrade GetClaims req (pre @ evs) w0 =
     (case handleWS session evs w of
        (None, w') \<Rightarrow> (Serving, w')
      | (Some ret, w') \<Rightarrow> (Finished (Inr ret), deferred session w'))"
    by (simp add: HandleRootWSUpgrade_def Let_def session_def [symmetric] w1_def [symmetric])
  then show ?thesis unfolding session_def .
qed

lemma handler_loop_goes_on:
  assumes "HandleRootWSUpgrade GetClaims req pre w0 = (Serving, w)"
    and "upgrade req = Some (websocket s)" and "GetClaims (authTokens req ! 0) = Some (claims s)"
    and "handleWS s evs w = (None, w')"
  shows "HandleRootWSUpgrade GetClaims req (pre @ evs) w0 = (Serving, w')"
proof -
  have "\<lparr>websocket = websocket s, claims = claims s\<rparr> = s" by simp
  with handler_continue [OF assms(1-3), of evs] assms(4) show ?thesis by simp
qed

lemma handler_loop_returns:
  assumes "HandleRootWSUpgrade GetClaims req pre w0 = (Serving, w)"
    and "upgrade req = Some (websocket s)" and "GetClaims (authTokens req ! 0) = Some (claims s)"
    and "handleWS s evs w = (Some ret, w')"
  shows "HandleRootWSUpgrade GetClaims req (pre @ evs) w0 = (Finished (Inr ret), deferred s w')"
proof -
  have "\<lparr>websocket = websocket s, claims = claims s\<rparr> = s" by simp
  with handler_continue [OF assms(1-3), of evs] assms(4) show ?thesis by simp
qed

section \<open>The deferred function\<close>

lemma deferred_effects:
  "effects (deferred s w) =
     effects w @ [Destroyed (ApiKeyID (claims s)) (Room (claims s)) (SessionKey (claims s))]
       @ map (\<lambda>p. attempt (dead w) (messageExit (SessionKey (claims s))) (snd p))
           (AList.delete (SessionKey (claims s))
              (members_of (directory w) (ApiKeyID (claims s)) (Room (claims s))))
       @ [Closed (websocket s)]"
  by (simp add: deferred_def Let_def Close_def announceExit_effects members_of_DestroySession)

lemma deferred_directory:
  "directory (deferred s w) =
     snd (DestroySession (ApiKeyID (claims s)) (Room (claims s)) (SessionKey (claims s)) (directory w))"
  by (simp add: deferred_def Let_def Close_def)

lemma deferred_effects_members:
  "effects (deferred s w) =
     effects w @ [Destroyed (ApiKeyID (claims s)) (Room (claims s)) (SessionKey (claims s))]
       @ map (\<lambda>p. attempt (dead w) (messageExit (SessionKey (claims s))) (snd p))
           (members_of (directory (deferred s w)) (ApiKeyID (claims s)) (Room (claims s)))
       @ [Closed (websocket s)]"
  by (simp add: deferred_effects deferred_directory members_of_DestroySession)

lemma deferred_closes_own:
  "Closed c \<in> set (effects (deferred s w)) \<Longrightarrow> Closed c \<in> set (effects w) \<or> c = websocket s"
  by (auto simp: deferred_effects attempt_def)

section \<open>Unfolding the model on concrete inputs\<close>

lemmas run_defs =
  HandleRootWSUpgrade_def assertClaims_def deferred_def announceExit_def handleClientMessage_def
  onError_def sendPing_def sendSdp_def sendCandidate_def sendMembers_def setSrc_def
  WriteJSON_def Close_def emit_def GetSession_def GetRoom_def StoreSession_def
  DestroySession_def attempt_def members_of_def
  alice_def bob_def carol_def room_abc_def relay_frame_def

section \<open>The claims\<close>

text \<open>
  C1. Every \<open>sdp\<close> or \<open>candidate\<close> message a session's event loop delivers carries
  the session's own participant key as \<open>src\<close>, whatever the schedule and the state;
  and the dispatcher's result does not depend on the \<open>src\<close> the client supplied: a
  frame and the same frame with a forged \<open>src\<close> are handled identically.
\<close>

theorem relay_src_overwritten:
  "(\<exists>new. effects (snd (handleWS s evs w)) = effects w @ new \<and>
      (\<forall>c m. Sent c (messageSDP m) \<in> set new \<or> Sent c (messageCandidate m) \<in> set new
         \<longrightarrow> Src (Args m) = SessionKey (claims s)))
   \<and> handleClientMessage s
        (r\<lparr>unmarshal_messageSDP := map_option (setSrc forged) (unmarshal_messageSDP r),
           unmarshal_messageCandidate := map_option (setSrc forged) (unmarshal_messageCandidate r)\<rparr>) w
      = handleClientMessage s r w"
proof
  from handleWS_effects [of s evs w] obtain new where
    new: "effects (snd (handleWS s evs w)) = effects w @ new"
      "list_all (servingEffect (SessionKey (claims s))) new" by blast
  have "Src (Args m) = SessionKey (claims s)"
    if "Sent c (messageSDP m) \<in> set new \<or> Sent c (messageCandidate m) \<in> set new" for c m
    using that new(2) servingEffect_Sent_SDP [of "SessionKey (claims s)" c m]
    by (auto simp: list_all_iff)
  with new(1) show "\<exists>new. effects (snd (handleWS s evs w)) = effects w @ new \<and>
      (\<forall>c m. Sent c (messageSDP m) \<in> set new \<or> Sent c (messageCandidate m) \<in> set new
         \<longrightarrow> Src (Args m) = SessionKey (claims s))" by blast
next
  show "handleClientMessage s
        (r\<lparr>unmarshal_messageSDP := map_option (setSrc forged) (unmarshal_messageSDP r),
           unmarshal_messageCandidate := map_option (setSrc forged) (unmarshal_messageCandidate r)\<rparr>) w
      = handleClientMessage s r w"
    by (cases "unmarshal_messageSDP r"; cases "unmarshal_messageCandidate r")
       (simp_all add: handleClientMessage_def sendSdp_def sendCandidate_def Let_def
         split: option.split)
qed

theorem relay_src_overwritten_witness:
  "effects (snd (handleWS alice [Inbound (relay_frame ''sdp'' ''forged'' ''B'')] room_abc)) =
     [Sent 20 (messageSDP \<lparr>Method = ''sdp'', Args = \<lparr>Src = ''A'', Dst = ''B'', Payload = ''v=0''\<rparr>\<rparr>)]
   \<and> handleClientMessage alice (relay_frame ''sdp'' ''forged'' ''B'') room_abc
     = handleClientMessage alice (relay_frame ''sdp'' ''A'' ''B'') room_abc"
  using relay_src_overwritten [where s = alice and w = room_abc and forged = "''forged''"
      and evs = "[Inbound (relay_frame ''sdp'' ''forged'' ''B'')]"
      and r = "relay_frame ''sdp'' ''A'' ''B''"]
  by (simp add: alice_def bob_def carol_def room_abc_def relay_frame_def handleClientMessage_def
      sendSdp_def onError_def setSrc_def GetSession_def GetRoom_def WriteJSON_def emit_def)

text \<open>
  C2. A handler that registered its session and has returned, for whatever reason (a
  failed first members list, a failed ping, a handler error, a failed read), has done
  the following since the registration, in this order: writes that are no exit message
  and nothing else while serving; then one deregistration of its key, one attempt to
  write the exit message with its key to every session then left in its room, one close
  of its own transport. After that its key is absent from the room, and where no room
  listed a key twice before, none of the sessions left is listed twice. The deferred
  function runs as one step here: steps of other goroutines are interleaved between
  the iterations of the event loop only.
\<close>

theorem teardown_exactly_once_in_order:
  assumes "upgrade r = Some c" and "authTokens r = [token]" and "GetClaims token = Some cl"
    and "assertClaims cl = None"
    and "fst (HandleRootWSUpgrade GetClaims r evs w) \<noteq> Serving"
  shows "\<exists>body D.
     effects (snd (HandleRootWSUpgrade GetClaims r evs w)) =
       effects w @ [Stored (ApiKeyID cl) (Room cl) (SessionKey cl) c] @ body
         @ [Destroyed (ApiKeyID cl) (Room cl) (SessionKey cl)]
         @ map (\<lambda>p. attempt D (messageExit (SessionKey cl)) (snd p))
             (members_of (directory (snd (HandleRootWSUpgrade GetClaims r evs w))) (ApiKeyID cl) (Room cl))
         @ [Closed c]
     \<and> (\<forall>e \<in> set body. \<exists>c' m. (e = Sent c' m \<or> e = SendFailed c' m) \<and> (\<forall>x. m \<noteq> messageExit x))
     \<and> GetSession (directory (snd (HandleRootWSUpgrade GetClaims r evs w)))
         (ApiKeyID cl) (Room cl) (SessionKey cl) = None
     \<and> (uniqueKeys (directory w) \<longrightarrow>
          distinct (map fst (members_of (directory (snd (HandleRootWSUpgrade GetClaims r evs w)))
            (ApiKeyID cl) (Room cl))))"
proof -
  define session where "session = \<lparr>websocket = c, claims = cl\<rparr>"
  define w1 where "w1 = emit (Stored (ApiKeyID cl) (Room cl) (SessionKey cl) c)
     (w\<lparr>directory := StoreSession (ApiKeyID cl) (Room cl) (SessionKey cl) session (directory w)\<rparr>)"
  obtain e2 w2 where sm: "sendMembers session w1 = (e2, w2)" by (cases "sendMembers session w1")
  obtain ret w3 where hw: "handleWS session evs w2 = (ret, w3)" by (cases "handleWS session evs w2")
  have sc: "websocket session = c" "claims session = cl" by (simp_all add: session_def)
  have e1: "effects w1 = effects w @ [Stored (ApiKeyID cl) (Room cl) (SessionKey cl) c]"
    by (simp add: w1_def)
  from sendMembers_step [of session w1] sm sc obtain n1 where
    n1: "effects w2 = effects w1 @ n1" "list_all (servingEffect (SessionKey cl)) n1" by auto
  from handleWS_effects [of session evs w2] hw sc obtain n2 where
    n2: "effects w3 = effects w2 @ n2" "list_all (servingEffect (SessionKey cl)) n2" by auto
  define wl where "wl = (if e2 = None then w3 else w2)"
  define body where "body = (if e2 = None then n1 @ n2 else n1)"
  have run: "snd (HandleRootWSUpgrade GetClaims r evs w) = deferred session wl"
    using assms sm hw
    by (auto simp: HandleRootWSUpgrade_def Let_def session_def [symmetric] w1_def [symmetric]
        wl_def split: option.splits)
  have wl: "effects wl = effects w @ [Stored (ApiKeyID cl) (Room cl) (SessionKey cl) c] @ body"
    using e1 n1 n2 by (simp add: wl_def body_def)
  have body: "\<forall>e \<in> set body. \<exists>c' m. (e = Sent c' m \<or> e = SendFailed c' m) \<and> (\<forall>x. m \<noteq> messageExit x)"
    using n1(2) n2(2) servingEffect_plain [of "SessionKey cl"]
    by (auto simp: body_def list_all_iff)
  have "effects (deferred session wl) =
       effects w @ [Stored (ApiKeyID cl) (Room cl) (SessionKey cl) c] @ body
         @ [Destroyed (ApiKeyID cl) (Room cl) (SessionKey cl)]
         @ map (\<lambda>p. attempt (dead wl) (messageExit (SessionKey cl)) (snd p))
             (members_of (directory (deferred session wl)) (ApiKeyID cl) (Room cl))
         @ [Closed c]"
    using wl sc by (simp add: deferred_effects deferred_directory members_of_DestroySession)
  moreover have "GetSession (directory (deferred session wl)) (ApiKeyID cl) (Room cl) (SessionKey cl) = None"
    using sc by (simp add: deferred_directory GetSession_DestroySession_same)
  moreover have "distinct (map fst (members_of (directory (deferred session wl)) (ApiKeyID cl) (Room cl)))"
    if u: "uniqueKeys (directory w)"
  proof -
    have "uniqueKeys (directory w1)"
      using u by (simp add: w1_def uniqueKeys_StoreSession)
    moreover have "directory w2 = directory w1"
      using sendMembers_step [of session w1] sm by auto
    ultimately have "uniqueKeys (directory w2)" by simp
    moreover from this have "uniqueKeys (directory w3)"
      using handleWS_uniqueKeys [of w2 session evs] hw by simp
    ultimately have "uniqueKeys (directory wl)" by (simp add: wl_def)
    then show ?thesis
      by (simp add: deferred_directory uniqueKeys_DestroySession members_of_distinct)
  qed
  ultimately show ?thesis using body unfolding run by blast
qed

theorem teardown_exactly_once_in_order_witness:
  "HandleRootWSUpgrade validate alice_request [Tick, Elsewhere (Breaks 10), Tick, Tick] room_bc =
     (Finished (Inr (PingFailed WriteError)),
      \<lparr>directory = [((''t'', ''r''), [(''B'', bob), (''C'', carol)])], dead = {10},
       effects =
         [Stored ''t'' ''r'' ''A'' 10, Sent 10 (messageMembers [''B'', ''C'']),
          Sent 10 messagePing, SendFailed 10 messagePing, Destroyed ''t'' ''r'' ''A'',
          Sent 20 (messageExit ''A''), Sent 30 (messageExit ''A''), Closed 10]\<rparr>)
   \<and> (\<exists>body D.
     effects (snd (HandleRootWSUpgrade validate alice_request
         [Tick, Elsewhere (Breaks 10), Tick, Tick] room_bc)) =
       effects room_bc
         @ [Stored (ApiKeyID (claims alice)) (Room (claims alice)) (SessionKey (claims alice)) 10]
         @ body
         @ [Destroyed (ApiKeyID (claims alice)) (Room (claims alice)) (SessionKey (claims alice))]
         @ map (\<lambda>p. attempt D (messageExit (SessionKey (claims alice))) (snd p))
             (members_of (directory (snd (HandleRootWSUpgrade validate alice_request
                [Tick, Elsewhere (Breaks 10), Tick, Tick] room_bc)))
                (ApiKeyID (claims alice)) (Room (claims alice)))
         @ [Closed 10]
     \<and> (\<forall>e \<in> set body. \<exists>c' m. (e = Sent c' m \<or> e = SendFailed c' m) \<and> (\<forall>x. m \<noteq> messageExit x))
     \<and> GetSession (directory (snd (HandleRootWSUpgrade validate alice_request
            [Tick, Elsewhere (Breaks 10), Tick, Tick] room_bc)))
         (ApiKeyID (claims alice)) (Room (claims alice)) (SessionKey (claims alice)) = None
     \<and> (uniqueKeys (directory room_bc) \<longrightarrow>
          distinct (map fst (members_of (directory (snd (HandleRootWSUpgrade validate alice_request
                [Tick, Elsewhere (Breaks 10), Tick, Tick] room_bc)))
            (ApiKeyID (claims alice)) (Room (claims alice))))))
   \<and> uniqueKeys (directory room_bc)"
proof -
  have h1: "upgrade alice_request = Some 10" by (simp add: alice_request_def)
  have h2: "authTokens alice_request = [''token-of-alice'']" by (simp add: alice_request_def)
  have h3: "validate ''token-of-alice'' = Some (claims alice)" by (simp add: validate_def)
  have h4: "assertClaims (claims alice) = None" by (simp add: assertClaims_def alice_def)
  have run: "HandleRootWSUpgrade validate alice_request [Tick, Elsewhere (Breaks 10), Tick, Tick] room_bc =
     (Finished (Inr (PingFailed WriteError)),
      \<lparr>directory = [((''t'', ''r''), [(''B'', bob), (''C'', carol)])], dead = {10},
       effects =
         [Stored ''t'' ''r'' ''A'' 10, Sent 10 (messageMembers [''B'', ''C'']),
          Sent 10 messagePing, SendFailed 10 messagePing, Destroyed ''t'' ''r'' ''A'',
          Sent 20 (messageExit ''A''), Sent 30 (messageExit ''A''), Closed 10]\<rparr>)"
    by (simp add: run_defs room_bc_def alice_request_def validate_def)
  have h5: "fst (HandleRootWSUpgrade validate alice_request
       [Tick, Elsewhere (Breaks 10), Tick, Tick] room_bc) \<noteq> Serving"
    by (simp add: run)
  have u: "uniqueKeys (directory room_bc)" by (simp add: uniqueKeys_def room_bc_def)
  show ?thesis
    using run teardown_exactly_once_in_order [OF h1 h2 h3 h4 h5] u by blast
qed

text \<open>
  C3. On a \<open>members\<close> request, in any state of the directory, the one effect is a
  write to the caller of a members list whose keys are exactly the keys registered in
  the caller's (tenant, room) other than the caller's own, which is never in it.
\<close>

theorem members_lists_the_others:
  assumes "unmarshal_messageBase r = Some ''members''"
  shows "\<exists>ks. snd (handleClientMessage s r w) = emit (attempt (dead w) (messageMembers ks) s) w
     \<and> set ks = {k. GetSession (directory w) (ApiKeyID (claims s)) (Room (claims s)) k \<noteq> None}
                 - {SessionKey (claims s)}
     \<and> SessionKey (claims s) \<notin> set ks"
proof -
  let ?m = "members_of (directory w) (ApiKeyID (claims s)) (Room (claims s))"
  let ?ks = "filter (\<lambda>key. key \<noteq> SessionKey (claims s)) (map fst ?m)"
  have "snd (handleClientMessage s r w) = emit (attempt (dead w) (messageMembers ?ks) s) w"
    using assms by (simp add: handleClientMessage_def onError_def sendMembers_snd)
  moreover have "{k. GetSession (directory w) (ApiKeyID (claims s)) (Room (claims s)) k \<noteq> None}
      = fst ` set ?m"
    using dom_map_of_conv_image_fst [of ?m] by (simp add: GetSession_members_of dom_def)
  then have "set ?ks = {k. GetSession (directory w) (ApiKeyID (claims s)) (Room (claims s)) k \<noteq> None}
                 - {SessionKey (claims s)}" by auto
  moreover have "SessionKey (claims s) \<notin> set ?ks" by simp
  ultimately show ?thesis by blast
qed

theorem members_lists_the_others_witness:
  "handleClientMessage alice members_frame room_abc =
     (None, emit (Sent 10 (messageMembers [''B'', ''C''])) room_abc)
   \<and> (\<exists>ks. snd (handleClientMessage alice members_frame room_abc) =
         emit (attempt (dead room_abc) (messageMembers ks) alice) room_abc
     \<and> set ks = {k. GetSession (directory room_abc) (ApiKeyID (claims alice)) (Room (claims alice)) k \<noteq> None}
                 - {SessionKey (claims alice)}
     \<and> SessionKey (claims alice) \<notin> set ks)"
proof -
  have h: "unmarshal_messageBase members_frame = Some ''members''"
    by (simp add: members_frame_def)
  have run: "handleClientMessage alice members_frame room_abc =
     (None, emit (Sent 10 (messageMembers [''B'', ''C''])) room_abc)"
    by (simp add: run_defs members_frame_def)
  show ?thesis by (rule conjI [OF run members_lists_the_others [OF h]])
qed

text \<open>
  C4. For an \<open>sdp\<close> or \<open>candidate\<close> frame, the destination is looked up under the
  sender's own tenant and room. If a session is registered there under the destination
  key, the one effect is a write to that session. If none is, whatever the other rooms
  hold, the dispatcher fails with \<open>PeerNotFound\<close> and no effect, and the sender's event
  loop returns at that frame with that error. The deferred function of the sender then
  closes the sender's transport and no other. For the handler as a whole: when it is
  serving after some schedule and such a frame comes next, it finishes with that error,
  and what it does from there is to deregister its key, to offer the exit message to
  every session left in its room and to close its own transport, whatever the schedule
  holds after the frame.
\<close>

theorem relay_target_in_own_room_or_peer_not_found:
  assumes "unmarshal_messageBase r = Some ''sdp'' \<and> unmarshal_messageSDP r = Some m
     \<or> unmarshal_messageBase r = Some ''candidate'' \<and> unmarshal_messageCandidate r = Some m"
  shows "(\<forall>d. GetSession (directory w) (ApiKeyID (claims s)) (Room (claims s)) (Dst (Args m)) = Some d
            \<longrightarrow> (\<exists>msg. snd (handleClientMessage s r w) = emit (attempt (dead w) msg d) w))
     \<and> (GetSession (directory w) (ApiKeyID (claims s)) (Room (claims s)) (Dst (Args m)) = None
            \<longrightarrow> (\<exists>e. PeerNotFound e \<and> handleClientMessage s r w = (Some e, w)
                  \<and> (handleWS s pre w0 = (None, w) \<longrightarrow>
                       handleWS s (pre @ Inbound r # post) w0 = (Some (HandlerFailed e), w))))
     \<and> (\<forall>c. Closed c \<in> set (effects (deferred s w)) \<longrightarrow>
              Closed c \<in> set (effects w) \<or> c = websocket s)
     \<and> (HandleRootWSUpgrade GetClaims req pre w1 = (Serving, w)
          \<and> upgrade req = Some (websocket s)
          \<and> GetClaims (authTokens req ! 0) = Some (claims s)
          \<and> GetSession (directory w) (ApiKeyID (claims s)) (Room (claims s)) (Dst (Args m)) = None
        \<longrightarrow> (\<exists>e. PeerNotFound e
              \<and> fst (HandleRootWSUpgrade GetClaims req (pre @ Inbound r # post) w1) =
                  Finished (Inr (HandlerFailed e)))
          \<and> effects (snd (HandleRootWSUpgrade GetClaims req (pre @ Inbound r # post) w1)) =
              effects w
                @ [Destroyed (ApiKeyID (claims s)) (Room (claims s)) (SessionKey (claims s))]
                @ map (\<lambda>p. attempt (dead w) (messageExit (SessionKey (claims s))) (snd p))
                    (members_of
                       (directory (snd (HandleRootWSUpgrade GetClaims req (pre @ Inbound r # post) w1)))
                       (ApiKeyID (claims s)) (Room (claims s)))
                @ [Closed (websocket s)])"
proof (intro conjI allI impI; (elim conjE)?)
  fix d
  assume "GetSession (directory w) (ApiKeyID (claims s)) (Room (claims s)) (Dst (Args m)) = Some d"
  with assms show "\<exists>msg. snd (handleClientMessage s r w) = emit (attempt (dead w) msg d) w"
    by (auto simp: handleClientMessage_def onError_def sendSdp_def sendCandidate_def Let_def
        WriteJSON_snd)
next
  assume "GetSession (directory w) (ApiKeyID (claims s)) (Room (claims s)) (Dst (Args m)) = None"
  with assms have "\<exists>e. PeerNotFound e \<and> handleClientMessage s r w = (Some e, w)"
    by (elim disjE conjE)
       (simp_all add: handleClientMessage_def onError_def sendSdp_def sendCandidate_def Let_def
         PeerNotFound_def)
  then show "\<exists>e. PeerNotFound e \<and> handleClientMessage s r w = (Some e, w)
       \<and> (handleWS s pre w0 = (None, w) \<longrightarrow>
            handleWS s (pre @ Inbound r # post) w0 = (Some (HandlerFailed e), w))"
    by (auto simp: handleWS_append)
next
  fix c
  assume "Closed c \<in> set (effects (deferred s w))"
  then show "Closed c \<in> set (effects w) \<or> c = websocket s" by (rule deferred_closes_own)
next
  assume serving: "HandleRootWSUpgrade GetClaims req pre w1 = (Serving, w)"
    and up: "upgrade req = Some (websocket s)"
    and cl: "GetClaims (authTokens req ! 0) = Some (claims s)"
    and absent: "GetSession (directory w) (ApiKeyID (claims s)) (Room (claims s)) (Dst (Args m)) = None"
  from assms absent have "\<exists>e. PeerNotFound e \<and> handleClientMessage s r w = (Some e, w)"
    by (elim disjE conjE)
       (simp_all add: handleClientMessage_def onError_def sendSdp_def sendCandidate_def Let_def
         PeerNotFound_def)
  then obtain e where e: "PeerNotFound e" "handleClientMessage s r w = (Some e, w)" by blast
  then have "handleWS s (Inbound r # post) w = (Some (HandlerFailed e), w)" by simp
  from handler_loop_returns [OF serving up cl this]
  have run: "HandleRootWSUpgrade GetClaims req (pre @ Inbound r # post) w1 =
      (Finished (Inr (HandlerFailed e)), deferred s w)" .
  from e(1) run show "\<exists>e. PeerNotFound e
      \<and> fst (HandleRootWSUpgrade GetClaims req (pre @ Inbound r # post) w1) =
          Finished (Inr (HandlerFailed e))"
    by auto
  show "effects (snd (HandleRootWSUpgrade GetClaims req (pre @ Inbound r # post) w1)) =
      effects w
        @ [Destroyed (ApiKeyID (claims s)) (Room (claims s)) (SessionKey (claims s))]
        @ map (\<lambda>p. attempt (dead w) (messageExit (SessionKey (claims s))) (snd p))
            (members_of
               (directory (snd (HandleRootWSUpgrade GetClaims req (pre @ Inbound r # post) w1)))
               (ApiKeyID (claims s)) (Room (claims s)))
        @ [Closed (websocket s)]"
    unfolding run snd_conv by (rule deferred_effects_members)
qed

theorem relay_target_in_own_room_or_peer_not_found_witness:
  "GetSession (directory two_rooms) ''t'' ''r'' ''B'' = Some bob
   \<and> handleWS dave ([] @ Inbound (relay_frame ''sdp'' ''D'' ''B'') # [Tick]) two_rooms =
       (Some (HandlerFailed (Wrapped (New ''no entry found in membersMap'') ''sendSdp failed'')),
        two_rooms)
   \<and> handleWS dave ([] @ Inbound (relay_frame ''candidate'' ''D'' ''B'') # [Tick]) two_rooms =
       (Some (HandlerFailed (Wrapped (New ''no entry found in membersMap'') ''sendCandidate failed'')),
        two_rooms)
   \<and> snd (handleClientMessage alice (relay_frame ''sdp'' ''A'' ''B'') two_rooms) =
       emit (Sent 20 (messageSDP \<lparr>Method = ''sdp'',
          Args = \<lparr>Src = ''A'', Dst = ''B'', Payload = ''v=0''\<rparr>\<rparr>)) two_rooms
   \<and> HandleRootWSUpgrade validate_dave dave_request [] two_rooms =
       (Serving,
        two_rooms\<lparr>effects := [Stored ''t'' ''r2'' ''D'' 40, Sent 40 (messageMembers [])]\<rparr>)
   \<and> fst (HandleRootWSUpgrade validate_dave dave_request
         ([] @ Inbound (relay_frame ''sdp'' ''D'' ''B'') # [Tick]) two_rooms) =
       Finished (Inr (HandlerFailed
         (Wrapped (New ''no entry found in membersMap'') ''sendSdp failed'')))
   \<and> effects (snd (HandleRootWSUpgrade validate_dave dave_request
         ([] @ Inbound (relay_frame ''sdp'' ''D'' ''B'') # [Tick]) two_rooms)) =
       [Stored ''t'' ''r2'' ''D'' 40, Sent 40 (messageMembers []), Destroyed ''t'' ''r2'' ''D'',
        Closed 40]"
proof -
  let ?W = "two_rooms\<lparr>effects := [Stored ''t'' ''r2'' ''D'' 40, Sent 40 (messageMembers [])]\<rparr>"
  let ?R = "HandleRootWSUpgrade validate_dave dave_request
         ([] @ Inbound (relay_frame ''sdp'' ''D'' ''B'') # [Tick]) two_rooms"
  have serving: "HandleRootWSUpgrade validate_dave dave_request [] two_rooms = (Serving, ?W)"
    by (simp add: run_defs dave_request_def validate_dave_def dave_def two_rooms_def)
  have up: "upgrade dave_request = Some (websocket dave)"
    by (simp add: dave_request_def dave_def)
  have cl: "validate_dave (authTokens dave_request ! 0) = Some (claims dave)"
    by (simp add: dave_request_def validate_dave_def)
  have room: "members_of (directory (snd ?R)) ''t'' ''r2'' = []"
    by (simp add: run_defs dave_request_def validate_dave_def dave_def two_rooms_def)
  let ?m = "\<lambda>name. \<lparr>Method = name, Args = \<lparr>Src = ''D'', Dst = ''B'', Payload = ''v=0''\<rparr>\<rparr>"
  let ?ma = "\<lparr>Method = ''sdp'', Args = \<lparr>Src = ''A'', Dst = ''B'', Payload = ''v=0''\<rparr>\<rparr>"
  have h1: "unmarshal_messageBase (relay_frame ''sdp'' ''D'' ''B'') = Some ''sdp''
        \<and> unmarshal_messageSDP (relay_frame ''sdp'' ''D'' ''B'') = Some (?m ''sdp'')
     \<or> unmarshal_messageBase (relay_frame ''sdp'' ''D'' ''B'') = Some ''candidate''
        \<and> unmarshal_messageCandidate (relay_frame ''sdp'' ''D'' ''B'') = Some (?m ''sdp'')"
    by (simp add: relay_frame_def)
  have h2: "unmarshal_messageBase (relay_frame ''candidate'' ''D'' ''B'') = Some ''sdp''
        \<and> unmarshal_messageSDP (relay_frame ''candidate'' ''D'' ''B'') = Some (?m ''candidate'')
     \<or> unmarshal_messageBase (relay_frame ''candidate'' ''D'' ''B'') = Some ''candidate''
        \<and> unmarshal_messageCandidate (relay_frame ''candidate'' ''D'' ''B'') = Some (?m ''candidate'')"
    by (simp add: relay_frame_def)
  have h3: "unmarshal_messageBase (relay_frame ''sdp'' ''A'' ''B'') = Some ''sdp''
        \<and> unmarshal_messageSDP (relay_frame ''sdp'' ''A'' ''B'') = Some ?ma
     \<or> unmarshal_messageBase (relay_frame ''sdp'' ''A'' ''B'') = Some ''candidate''
        \<and> unmarshal_messageCandidate (relay_frame ''sdp'' ''A'' ''B'') = Some ?ma"
    by (simp add: relay_frame_def)
  have absent: "GetSession (directory two_rooms) (ApiKeyID (claims dave)) (Room (claims dave))
      (Dst (Args (?m name))) = None" for name
    by (simp add: GetSession_def GetRoom_def two_rooms_def dave_def)
  have present: "GetSession (directory two_rooms) ''t'' ''r'' ''B'' = Some bob"
    by (simp add: GetSession_def GetRoom_def two_rooms_def)
  have present': "GetSession (directory two_rooms) (ApiKeyID (claims alice)) (Room (claims alice))
      (Dst (Args ?ma)) = Some bob"
    using present by (simp add: alice_def)
  have pre: "handleWS dave [] two_rooms = (None, two_rooms)" by simp
  have d1: "handleClientMessage dave (relay_frame ''sdp'' ''D'' ''B'') two_rooms =
     (Some (Wrapped (New ''no entry found in membersMap'') ''sendSdp failed''), two_rooms)"
    using absent [of "''sdp''"]
    by (simp add: handleClientMessage_def onError_def sendSdp_def relay_frame_def setSrc_def)
  have d2: "handleClientMessage dave (relay_frame ''candidate'' ''D'' ''B'') two_rooms =
     (Some (Wrapped (New ''no entry found in membersMap'') ''sendCandidate failed''), two_rooms)"
    using absent [of "''candidate''"]
    by (simp add: handleClientMessage_def onError_def sendCandidate_def relay_frame_def setSrc_def)
  have d3: "snd (handleClientMessage alice (relay_frame ''sdp'' ''A'' ''B'') two_rooms) =
       emit (Sent 20 (messageSDP ?ma)) two_rooms"
    by (simp add: handleClientMessage_def onError_def sendSdp_def relay_frame_def setSrc_def
        WriteJSON_def two_rooms_def bob_def alice_def GetSession_def GetRoom_def)
  from relay_target_in_own_room_or_peer_not_found [OF h1, where s = dave and w = two_rooms
      and pre = "[]" and ?w0.0 = two_rooms and post = "[Tick]"] absent [of "''sdp''"] pre d1
  have a: "handleWS dave ([] @ Inbound (relay_frame ''sdp'' ''D'' ''B'') # [Tick]) two_rooms =
       (Some (HandlerFailed (Wrapped (New ''no entry found in membersMap'') ''sendSdp failed'')),
        two_rooms)"
    by auto
  from relay_target_in_own_room_or_peer_not_found [OF h2, where s = dave and w = two_rooms
      and pre = "[]" and ?w0.0 = two_rooms and post = "[Tick]"] absent [of "''candidate''"] pre d2
  have b: "handleWS dave ([] @ Inbound (relay_frame ''candidate'' ''D'' ''B'') # [Tick]) two_rooms =
       (Some (HandlerFailed (Wrapped (New ''no entry found in membersMap'') ''sendCandidate failed'')),
        two_rooms)"
    by auto
  from relay_target_in_own_room_or_peer_not_found [OF h3, where s = alice and w = two_rooms]
    present' d3
  have c: "snd (handleClientMessage alice (relay_frame ''sdp'' ''A'' ''B'') two_rooms) =
       emit (Sent 20 (messageSDP ?ma)) two_rooms"
    by simp
  have absent': "GetSession (directory ?W) (ApiKeyID (claims dave)) (Room (claims dave))
      (Dst (Args (?m ''sdp''))) = None"
    using absent [of "''sdp''"] by simp
  from relay_target_in_own_room_or_peer_not_found [OF h1, where s = dave and w = ?W
      and GetClaims = validate_dave and req = dave_request and pre = "[]" and ?w1.0 = two_rooms
      and post = "[Tick]"] serving up cl absent'
  have handler: "(\<exists>e. PeerNotFound e \<and> fst ?R = Finished (Inr (HandlerFailed e)))
      \<and> effects (snd ?R) =
          effects ?W
            @ [Destroyed (ApiKeyID (claims dave)) (Room (claims dave)) (SessionKey (claims dave))]
            @ map (\<lambda>p. attempt (dead ?W) (messageExit (SessionKey (claims dave))) (snd p))
                (members_of (directory (snd ?R)) (ApiKeyID (claims dave)) (Room (claims dave)))
            @ [Closed (websocket dave)]"
    by blast
  have d: "fst ?R = Finished (Inr (HandlerFailed
         (Wrapped (New ''no entry found in membersMap'') ''sendSdp failed'')))"
    by (simp add: run_defs dave_request_def validate_dave_def dave_def two_rooms_def)
  from handler room have e: "effects (snd ?R) =
       [Stored ''t'' ''r2'' ''D'' 40, Sent 40 (messageMembers []), Destroyed ''t'' ''r2'' ''D'',
        Closed 40]"
    by (simp add: dave_def)
  from present a b c serving d e show ?thesis by blast
qed

text \<open>
  C5. A request with one token whose validated claim lacks the tenant, the room or the
  participant key: the handler returns with nothing registered and nothing written,
  and also without closing the upgraded transport (10 here), which stays writable. The
  only call of \<^verbatim>\<open>Close\<close> is in the deferred function, and that is registered after
  the checks of the claim.
\<close>

theorem incomplete_claim_returns_without_close:
  "HandleRootWSUpgrade (claim_without 0) alice_request [Tick, Stop] room_bc =
     (Rejected (New ''Claims were missing a ApiKeyId''), room_bc)
   \<and> HandleRootWSUpgrade (claim_without 1) alice_request [Tick, Stop] room_bc =
     (Rejected (New ''Claims were missing a room''), room_bc)
   \<and> HandleRootWSUpgrade (claim_without 2) alice_request [Tick, Stop] room_bc =
     (Rejected (New ''Claims were missing a sessionKey''), room_bc)
   \<and> Closed 10 \<notin> set (effects (snd (HandleRootWSUpgrade (claim_without 1) alice_request
        [Tick, Stop] room_bc)))
   \<and> 10 \<notin> dead (snd (HandleRootWSUpgrade (claim_without 1) alice_request [Tick, Stop] room_bc))"
  by (simp add: HandleRootWSUpgrade_def assertClaims_def claim_without_def alice_request_def
      room_bc_def)






text \<open>
  C8. A tick makes exactly one write, of a ping, to the session's own transport. While
  that transport is alive the loop goes on after the tick; once it is broken, the next
  tick ends the loop with the write error. Any number of ticks with no frame from the
  client in between, so with no pong at all, leaves the loop running. For the handler
  as a whole: when it is serving after some schedule and its transport is broken, the
  next tick makes it finish with the write error, and what it does from there is the
  failed ping, the deregistration of its key, the offer of the exit message to every
  session left in its room and the close of its own transport; when its transport is
  alive, any number of ticks leaves it serving, with one ping written per tick.
\<close>

theorem keepalive_ping_only_write_failure_is_fatal:
  "snd (sendPing s w) = emit (attempt (dead w) messagePing s) w
   \<and> (websocket s \<notin> dead w \<longrightarrow>
        handleWS s (Tick # evs) w = handleWS s evs (emit (Sent (websocket s) messagePing) w))
   \<and> (handleWS s pre w0 = (None, w) \<and> websocket s \<in> dead w \<longrightarrow>
        handleWS s (pre @ Tick # post) w0 =
          (Some (PingFailed WriteError), emit (SendFailed (websocket s) messagePing) w))
   \<and> (websocket s \<notin> dead w \<longrightarrow>
        handleWS s (replicate n Tick) w =
          (None, w\<lparr>effects := effects w @ replicate n (Sent (websocket s) messagePing)\<rparr>))
   \<and> (HandleRootWSUpgrade GetClaims req pre w1 = (Serving, w)
        \<and> upgrade req = Some (websocket s)
        \<and> GetClaims (authTokens req ! 0) = Some (claims s)
        \<and> websocket s \<in> dead w
      \<longrightarrow> fst (HandleRootWSUpgrade GetClaims req (pre @ Tick # post) w1) =
            Finished (Inr (PingFailed WriteError))
        \<and> effects (snd (HandleRootWSUpgrade GetClaims req (pre @ Tick # post) w1)) =
            effects w
              @ [SendFailed (websocket s) messagePing,
                 Destroyed (ApiKeyID (claims s)) (Room (claims s)) (SessionKey (claims s))]
              @ map (\<lambda>p. attempt (dead w) (messageExit (SessionKey (claims s))) (snd p))
                  (members_of
                     (directory (snd (HandleRootWSUpgrade GetClaims req (pre @ Tick # post) w1)))
                     (ApiKeyID (claims s)) (Room (claims s)))
              @ [Closed (websocket s)])
   \<and> (HandleRootWSUpgrade GetClaims req pre w1 = (Serving, w)
        \<and> upgrade req = Some (websocket s)
        \<and> GetClaims (authTokens req ! 0) = Some (claims s)
        \<and> websocket s \<notin> dead w
      \<longrightarrow> HandleRootWSUpgrade GetClaims req (pre @ replicate n Tick) w1 =
            (Serving, w\<lparr>effects := effects w @ replicate n (Sent (websocket s) messagePing)\<rparr>))"
proof -
  have loop: "snd (sendPing s w) = emit (attempt (dead w) messagePing s) w
   \<and> (websocket s \<notin> dead w \<longrightarrow>
        handleWS s (Tick # evs) w = handleWS s evs (emit (Sent (websocket s) messagePing) w))
   \<and> (handleWS s pre w0 = (None, w) \<and> websocket s \<in> dead w \<longrightarrow>
        handleWS s (pre @ Tick # post) w0 =
          (Some (PingFailed WriteError), emit (SendFailed (websocket s) messagePing) w))
   \<and> (websocket s \<notin> dead w \<longrightarrow>
        handleWS s (replicate n Tick) w =
          (None, w\<lparr>effects := effects w @ replicate n (Sent (websocket s) messagePing)\<rparr>))"
    by (simp add: sendPing_snd handleWS_ticks handleWS_append)
       (simp add: sendPing_def WriteJSON_def)
  have broken: "fst (HandleRootWSUpgrade GetClaims req (pre @ Tick # post) w1) =
            Finished (Inr (PingFailed WriteError))
        \<and> effects (snd (HandleRootWSUpgrade GetClaims req (pre @ Tick # post) w1)) =
            effects w
              @ [SendFailed (websocket s) messagePing,
                 Destroyed (ApiKeyID (claims s)) (Room (claims s)) (SessionKey (claims s))]
              @ map (\<lambda>p. attempt (dead w) (messageExit (SessionKey (claims s))) (snd p))
                  (members_of
                     (directory (snd (HandleRootWSUpgrade GetClaims req (pre @ Tick # post) w1)))
                     (ApiKeyID (claims s)) (Room (claims s)))
              @ [Closed (websocket s)]"
    if serving: "HandleRootWSUpgrade GetClaims req pre w1 = (Serving, w)"
      and up: "upgrade req = Some (websocket s)"
      and cl: "GetClaims (authTokens req ! 0) = Some (claims s)"
      and dead: "websocket s \<in> dead w"
  proof -
    let ?w' = "emit (SendFailed (websocket s) messagePing) w"
    have "handleWS s (Tick # post) w = (Some (PingFailed WriteError), ?w')"
      using dead by (simp add: sendPing_def WriteJSON_def)
    from handler_loop_returns [OF serving up cl this]
    have run: "HandleRootWSUpgrade GetClaims req (pre @ Tick # post) w1 =
        (Finished (Inr (PingFailed WriteError)), deferred s ?w')" .
    show ?thesis
      unfolding run fst_conv snd_conv
      using deferred_effects_members [of s ?w'] by simp
  qed
  have alive: "HandleRootWSUpgrade GetClaims req (pre @ replicate n Tick) w1 =
            (Serving, w\<lparr>effects := effects w @ replicate n (Sent (websocket s) messagePing)\<rparr>)"
    if serving: "HandleRootWSUpgrade GetClaims req pre w1 = (Serving, w)"
      and up: "upgrade req = Some (websocket s)"
      and cl: "GetClaims (authTokens req ! 0) = Some (claims s)"
      and alive: "websocket s \<notin> dead w"
    using handler_loop_goes_on [OF serving up cl handleWS_ticks [OF alive, of n]] .
  from loop broken alive show ?thesis by blast
qed

theorem keepalive_ping_only_write_failure_is_fatal_witness:
  "handleWS alice (replicate 3 Tick) room_abc =
     (None, room_abc\<lparr>effects := replicate 3 (Sent 10 messagePing)\<rparr>)
   \<and> handleWS alice ([Tick, Elsewhere (Breaks 10)] @ Tick # [Tick, Tick]) room_abc =
       (Some (PingFailed WriteError),
        room_abc\<lparr>dead := {10}, effects := [Sent 10 messagePing, SendFailed 10 messagePing]\<rparr>)
   \<and> HandleRootWSUpgrade validate alice_request ([] @ replicate 3 Tick) room_bc =
       (Serving,
        \<lparr>directory = [((''t'', ''r''), [(''B'', bob), (''C'', carol), (''A'', alice)])],
         dead = {},
         effects = [Stored ''t'' ''r'' ''A'' 10, Sent 10 (messageMembers [''B'', ''C''])]
           @ replicate 3 (Sent 10 messagePing)\<rparr>)
   \<and> fst (HandleRootWSUpgrade validate alice_request
         ([Tick, Elsewhere (Breaks 10)] @ Tick # [Tick, Tick]) room_bc) =
       Finished (Inr (PingFailed WriteError))
   \<and> effects (snd (HandleRootWSUpgrade validate alice_request
         ([Tick, Elsewhere (Breaks 10)] @ Tick # [Tick, Tick]) room_bc)) =
       [Stored ''t'' ''r'' ''A'' 10, Sent 10 (messageMembers [''B'', ''C'']), Sent 10 messagePing,
        SendFailed 10 messagePing, Destroyed ''t'' ''r'' ''A'', Sent 20 (messageExit ''A''),
        Sent 30 (messageExit ''A''), Closed 10]"
proof -
  let ?joined = "\<lparr>directory = [((''t'', ''r''), [(''B'', bob), (''C'', carol), (''A'', alice)])],
         dead = {},
         effects = [Stored ''t'' ''r'' ''A'' 10, Sent 10 (messageMembers [''B'', ''C''])]\<rparr>"
  let ?broken = "\<lparr>directory = [((''t'', ''r''), [(''B'', bob), (''C'', carol), (''A'', alice)])],
         dead = {10},
         effects = [Stored ''t'' ''r'' ''A'' 10, Sent 10 (messageMembers [''B'', ''C'']),
           Sent 10 messagePing]\<rparr>"
  let ?R = "HandleRootWSUpgrade validate alice_request
         ([Tick, Elsewhere (Breaks 10)] @ Tick # [Tick, Tick]) room_bc"
  have h1: "websocket alice \<notin> dead room_abc" by (simp add: alice_def room_abc_def)
  have h2: "handleWS alice [Tick, Elsewhere (Breaks 10)] room_abc =
     (None, room_abc\<lparr>dead := {10}, effects := [Sent 10 messagePing]\<rparr>)
     \<and> websocket alice \<in> dead (room_abc\<lparr>dead := {10}, effects := [Sent 10 messagePing]\<rparr>)"
    by (simp add: run_defs)
  have loop: "handleWS alice (replicate 3 Tick) room_abc =
     (None, room_abc\<lparr>effects := replicate 3 (Sent 10 messagePing)\<rparr>)
   \<and> handleWS alice ([Tick, Elsewhere (Breaks 10)] @ Tick # [Tick, Tick]) room_abc =
       (Some (PingFailed WriteError),
        room_abc\<lparr>dead := {10}, effects := [Sent 10 messagePing, SendFailed 10 messagePing]\<rparr>)"
    using h1 h2 keepalive_ping_only_write_failure_is_fatal
      [where s = alice and w = room_abc and n = 3]
      keepalive_ping_only_write_failure_is_fatal
      [where s = alice and w = "room_abc\<lparr>dead := {10}, effects := [Sent 10 messagePing]\<rparr>"
         and ?w0.0 = room_abc and pre = "[Tick, Elsewhere (Breaks 10)]" and post = "[Tick, Tick]"]
    by (simp add: alice_def room_abc_def emit_def)
  have up: "upgrade alice_request = Some (websocket alice)"
    by (simp add: alice_request_def alice_def)
  have cl: "validate (authTokens alice_request ! 0) = Some (claims alice)"
    by (simp add: alice_request_def validate_def)
  have serving0: "HandleRootWSUpgrade validate alice_request [] room_bc = (Serving, ?joined)"
    by (simp add: run_defs alice_request_def validate_def room_bc_def)
  have serving2: "HandleRootWSUpgrade validate alice_request [Tick, Elsewhere (Breaks 10)] room_bc =
      (Serving, ?broken)"
    by (simp add: run_defs alice_request_def validate_def room_bc_def)
  have alive: "websocket alice \<notin> dead ?joined" by simp
  have dead: "websocket alice \<in> dead ?broken" by (simp add: alice_def)
  have room: "members_of (directory (snd ?R)) ''t'' ''r'' = [(''B'', bob), (''C'', carol)]"
    by (simp add: run_defs alice_request_def validate_def room_bc_def)
  from keepalive_ping_only_write_failure_is_fatal
      [where s = alice and w = ?joined and GetClaims = validate and req = alice_request
         and pre = "[]" and ?w1.0 = room_bc and n = 3] serving0 up cl alive
  have a: "HandleRootWSUpgrade validate alice_request ([] @ replicate 3 Tick) room_bc =
       (Serving, ?joined\<lparr>effects := effects ?joined @ replicate 3 (Sent (websocket alice) messagePing)\<rparr>)"
    by blast
  from keepalive_ping_only_write_failure_is_fatal
      [where s = alice and w = ?broken and GetClaims = validate and req = alice_request
         and pre = "[Tick, Elsewhere (Breaks 10)]" and ?w1.0 = room_bc and post = "[Tick, Tick]"]
    serving2 up cl dead
  have b: "fst ?R = Finished (Inr (PingFailed WriteError))
      \<and> effects (snd ?R) =
          effects ?broken
            @ [SendFailed (websocket alice) messagePing,
               Destroyed (ApiKeyID (claims alice)) (Room (claims alice)) (SessionKey (claims alice))]
            @ map (\<lambda>p. attempt (dead ?broken) (messageExit (SessionKey (claims alice))) (snd p))
                (members_of (directory (snd ?R)) (ApiKeyID (claims alice)) (Room (claims alice)))
            @ [Closed (websocket alice)]"
    by blast
  from a have a': "HandleRootWSUpgrade validate alice_request ([] @ replicate 3 Tick) room_bc =
       (Serving,
        \<lparr>directory = [((''t'', ''r''), [(''B'', bob), (''C'', carol), (''A'', alice)])],
         dead = {},
         effects = [Stored ''t'' ''r'' ''A'' 10, Sent 10 (messageMembers [''B'', ''C''])]
           @ replicate 3 (Sent 10 messagePing)\<rparr>)"
    by (simp add: alice_def)
  from b room have b': "effects (snd ?R) =
       [Stored ''t'' ''r'' ''A'' 10, Sent 10 (messageMembers [''B'', ''C'']), Sent 10 messagePing,
        SendFailed 10 messagePing, Destroyed ''t'' ''r'' ''A'', Sent 20 (messageExit ''A''),
        Sent 30 (messageExit ''A''), Closed 10]"
    by (simp add: alice_def bob_def carol_def attempt_def)
  from loop a' b b' show ?thesis by blast
qed

text \<open>
  C9. The exit broadcast makes one write attempt per member of the room, in the order
  of the enumeration, whichever of the transports are broken: a failed write does not
  stop the enumeration. The deferred function, whichever writes of its broadcast fail,
  has offered the exit message to every session left in the room and goes on to close
  the transport of the departing session.
\<close>

theorem exit_broadcast_goes_on_after_failure:
  "effects (announceExit a r k w) =
     effects w @ map (\<lambda>p. attempt (dead w) (messageExit k) (snd p)) (members_of (directory w) a r)
   \<and> effects (deferred s w) =
       effects w @ [Destroyed (ApiKeyID (claims s)) (Room (claims s)) (SessionKey (claims s))]
         @ map (\<lambda>p. attempt (dead w) (messageExit (SessionKey (claims s))) (snd p))
             (members_of (directory (deferred s w)) (ApiKeyID (claims s)) (Room (claims s)))
         @ [Closed (websocket s)]"
  by (simp add: announceExit_effects deferred_effects deferred_directory members_of_DestroySession)

theorem exit_broadcast_goes_on_after_failure_witness:
  "effects (deferred alice (room_abc\<lparr>dead := {20}\<rparr>)) =
     [Destroyed ''t'' ''r'' ''A'', SendFailed 20 (messageExit ''A''), Sent 30 (messageExit ''A''),
      Closed 10]
   \<and> effects (announceExit ''t'' ''r'' ''A'' (room_abc\<lparr>dead := {10, 20}\<rparr>)) =
     [SendFailed 10 (messageExit ''A''), SendFailed 20 (messageExit ''A''),
      Sent 30 (messageExit ''A'')]"
  using exit_broadcast_goes_on_after_failure
      [where a = "''t''" and r = "''r''" and k = "''A''" and s = alice
         and w = "room_abc\<lparr>dead := {10, 20}\<rparr>"]
    exit_broadcast_goes_on_after_failure
      [where a = "''t''" and r = "''r''" and k = "''A''" and s = alice
         and w = "room_abc\<lparr>dead := {20}\<rparr>"]
  by (simp add: run_defs)



end
